theory Spec2Isabelle
  imports Main "HOL-Library.AList"
begin

section \<open>The radio\_duck SQLAlchemy dialect (src/radio\_duck/sqlalchemy.py)\<close>

text \<open>
  The dialect class \<open>RadioDuckDialect\<close> is embedded method by method. Python values are
  dynamically typed, so what travels through the DB-API cursor is a \<open>pyval\<close>; a raised
  exception is the \<open>Inl\<close> branch of a sum; the calls made on the caller's connection and
  cursor are recorded in an explicit \<open>session\<close> that every method takes and returns.
\<close>

subsection \<open>Values, exceptions, catalog queries\<close>

text \<open>
  A Python \<open>str\<close> is modelled as a \<open>string\<close>: one \<open>char\<close> stands for one code point
  in the range 0..255. A \<open>dict\<close> keeps insertion order, so it is an association list.
\<close>

datatype pyval =
    PNone
  | PBool bool
  | PInt int
  | PStr string
  | PList "pyval list"
  | PDict "(string \<times> pyval) list"

text \<open>
  \<open>NotImplementedError\<close>, \<open>IndexError\<close>, \<open>TypeError\<close> and \<open>KeyError\<close> are Python's builtin
  exceptions; \<open>NotSupportedError\<close> is the class imported from \<open>radio_duck.exceptions\<close>,
  with its message; \<open>DriverError\<close> stands for whatever the caller's connection or cursor
  raises.
\<close>

datatype error =
    NotImplementedError
  | NotSupportedError string
  | IndexError
  | TypeError
  | KeyError
  | DriverError string

text \<open>
  The SQL texts are the constants that the module imports from \<open>radio_duck.queries\<close>;
  their wording is not part of \<open>sqlalchemy.py\<close>, and no method looks inside them. Each
  method passes one of them to \<open>cursor.execute\<close>, so a constant is identified by the name
  under which it is imported (capitalised here, since \<open>get_columns\<close> and \<open>get_indexes\<close>
  are also method names of the dialect).
\<close>

datatype catalog_query =
    Get_check_constraint
  | Get_columns
  | Get_constraints
  | Get_indexes
  | Get_sequences
  | Get_tables
  | Get_temp_tables
  | Get_temp_views
  | Get_view_sql
  | Get_views
  | Has_index_query
  | Has_sequence_query
  | Has_table_query

subsection \<open>The caller's connection and cursor\<close>

text \<open>
  The connection and its cursor are supplied by the caller. Their behaviour is arbitrary:
  \<open>cursor()\<close> hands out a cursor or raises; \<open>execute\<close> raises or leaves the cursor holding
  a result, which depends on the statement and its parameters; reading the result with
  \<open>fetchall\<close> or \<open>fetchone\<close> may raise again; \<open>close\<close> may raise.
\<close>

record result_set =
  rowcount :: int
  fetchall :: "error + pyval list list"
  fetchone :: "error + pyval list option"

record cursor =
  execute :: "catalog_query \<Rightarrow> pyval list \<Rightarrow> error + result_set"
  close :: "error option"

record connection =
  cursor :: "error + cursor"

text \<open>
  What a method has done to the caller's objects: the statements passed to \<open>execute\<close>
  with their parameter lists, in order; whether a cursor obtained from \<open>cursor()\<close> has
  not yet received \<open>close()\<close>; and the cursors on which \<open>close()\<close> has been called, in
  order, one entry per call.
\<close>

record session =
  executed :: "(catalog_query \<times> pyval list) list"
  cursor_open :: bool
  closed :: "cursor list"

definition fresh :: session where
  "fresh = \<lparr>executed = [], cursor_open = False, closed = []\<rparr>"

type_synonym 'a io = "session \<Rightarrow> (error + 'a) \<times> session"

definition io_bind :: "'a io \<Rightarrow> ('a \<Rightarrow> 'b io) \<Rightarrow> 'b io" where
  "io_bind m f s = (case m s of (Inl e, s1) \<Rightarrow> (Inl e, s1) | (Inr x, s1) \<Rightarrow> f x s1)"

definition io_pure :: "error + 'a \<Rightarrow> 'a io" where
  "io_pure r s = (r, s)"

definition connection_cursor :: "connection \<Rightarrow> cursor io" where
  "connection_cursor conn s =
     (case cursor conn of
        Inl e \<Rightarrow> (Inl e, s)
      | Inr cur \<Rightarrow> (Inr cur, s\<lparr>cursor_open := True\<rparr>))"

definition cursor_execute :: "cursor \<Rightarrow> catalog_query \<Rightarrow> pyval list \<Rightarrow> result_set io" where
  "cursor_execute cur q parameters s =
     (execute cur q parameters, s\<lparr>executed := executed s @ [(q, parameters)]\<rparr>)"

definition cursor_close :: "cursor \<Rightarrow> unit io" where
  "cursor_close cur s =
     ((case close cur of Some e \<Rightarrow> Inl e | None \<Rightarrow> Inr ()),
      s\<lparr>cursor_open := False, closed := closed s @ [cur]\<rparr>)"

text \<open>
  Every introspection method has the shape
  \<^verbatim>\<open>
    cursor = None
    try:
        cursor = connection.cursor()
        ...body...
    finally:
        if cursor is not None:
            cursor.close()
  \<close>
  When \<open>connection.cursor()\<close> raises, \<open>cursor\<close> is still \<open>None\<close> and the cleanup does
  nothing. Otherwise the cleanup calls \<open>close()\<close> whatever the body did, and an exception
  raised by \<open>close()\<close> replaces the body's outcome.
\<close>

definition with_cursor :: "connection \<Rightarrow> (cursor \<Rightarrow> 'a io) \<Rightarrow> 'a io" where
  "with_cursor conn body s =
     (case connection_cursor conn s of
        (Inl e, s1) \<Rightarrow> (Inl e, s1)
      | (Inr cur, s1) \<Rightarrow>
          (case body cur s1 of
             (r, s2) \<Rightarrow>
               (case cursor_close cur s2 of
                  (Inl e, s3) \<Rightarrow> (Inl e, s3)
                | (Inr _, s3) \<Rightarrow> (r, s3))))"

subsection \<open>Strings: strip, split and the regular expression of get\_indexes\<close>

text \<open>
  \<open>str.strip()\<close> removes leading and trailing whitespace, where whitespace is what
  \<open>str.isspace\<close> accepts: among the code points 0..255 these are 9..13, 28..32, 133
  and 160.
\<close>

definition isspace :: "char \<Rightarrow> bool" where
  "isspace c =
     (let n = (of_char c :: nat)
      in (9 \<le> n \<and> n \<le> 13) \<or> (28 \<le> n \<and> n \<le> 32) \<or> n = 133 \<or> n = 160)"

definition strip :: "string \<Rightarrow> string" where
  "strip s = rev (dropWhile isspace (rev (dropWhile isspace s)))"

text \<open>
  \<open>s.split(sep)\<close> for a one-character separator: every occurrence of the separator ends
  a piece, so \<open>n\<close> separators give \<open>n + 1\<close> pieces and the empty string gives one empty
  piece.
\<close>

fun split_on :: "char \<Rightarrow> string \<Rightarrow> string list" where
  "split_on sep [] = [[]]"
| "split_on sep (c # cs) =
     (if c = sep then [] # split_on sep cs
      else (case split_on sep cs of
              [] \<Rightarrow> [[c]]
            | piece # pieces \<Rightarrow> (c # piece) # pieces))"

text \<open>
  \<open>re.search(r"\((.*?)\)", sql)\<close>. \<open>group_after_paren\<close> matches \<open>(.*?)\)\<close> right after an
  opening parenthesis: the lazy \<open>.*?\<close> stops at the first closing parenthesis, and since
  \<open>.\<close> does not match a line feed, the attempt fails when a line feed comes first.
  \<open>re_search\<close> tries the start positions from left to right and returns group 1 of the
  first match, or \<open>None\<close>.
\<close>

fun group_after_paren :: "string \<Rightarrow> string option" where
  "group_after_paren [] = None"
| "group_after_paren (c # cs) =
     (if c = CHR '')'' then Some []
      else if c = CHR 0x0A then None
      else map_option ((#) c) (group_after_paren cs))"

fun re_search :: "string \<Rightarrow> string option" where
  "re_search [] = None"
| "re_search (c # cs) =
     (if c = CHR ''('' then
        (case group_after_paren cs of
           Some g \<Rightarrow> Some g
         | None \<Rightarrow> re_search cs)
      else re_search cs)"

subsection \<open>Schema default and row access\<close>

text \<open>
  The first statement of every method that uses its schema argument:
  \<^verbatim>\<open>
    if schema is None or "" == schema.strip():
        schema = "main"
  \<close>
\<close>

definition schema_or_main :: "string option \<Rightarrow> string" where
  "schema_or_main schema =
     (case schema of
        None \<Rightarrow> ''main''
      | Some s \<Rightarrow> if [] = strip s then ''main'' else s)"

text \<open>\<open>row[i]\<close> for a constant index \<open>i \<ge> 0\<close>: \<open>IndexError\<close> beyond the end of the row.\<close>

definition subscript :: "pyval list \<Rightarrow> nat \<Rightarrow> error + pyval" where
  "subscript row i = (if i < length row then Inr (row ! i) else Inl IndexError)"

text \<open>A list comprehension whose element expression may raise: the first exception ends it.\<close>

fun comprehension :: "('a \<Rightarrow> error + 'b) \<Rightarrow> 'a list \<Rightarrow> error + 'b list" where
  "comprehension f [] = Inr []"
| "comprehension f (x # xs) =
     (case f x of
        Inl e \<Rightarrow> Inl e
      | Inr y \<Rightarrow>
          (case comprehension f xs of
             Inl e \<Rightarrow> Inl e
           | Inr ys \<Rightarrow> Inr (y # ys)))"

subsection \<open>has methods\<close>

definition has_index :: "connection \<Rightarrow> string \<Rightarrow> string \<Rightarrow> string option \<Rightarrow> pyval io" where
  "has_index conn table_name index_name schema =
     with_cursor conn (\<lambda>cur.
       io_bind
         (cursor_execute cur Has_index_query
            [PStr (schema_or_main schema), PStr table_name, PStr index_name])
         (\<lambda>res. io_pure (Inr (PBool (rowcount res = 1)))))"

definition has_table :: "connection \<Rightarrow> string \<Rightarrow> string option \<Rightarrow> pyval io" where
  "has_table conn table_name schema =
     with_cursor conn (\<lambda>cur.
       io_bind
         (cursor_execute cur Has_table_query [PStr (schema_or_main schema), PStr table_name])
         (\<lambda>res. io_pure (Inr (PBool (rowcount res = 1)))))"

definition has_sequence :: "connection \<Rightarrow> string \<Rightarrow> string option \<Rightarrow> pyval io" where
  "has_sequence conn sequence_name schema =
     with_cursor conn (\<lambda>cur.
       io_bind
         (cursor_execute cur Has_sequence_query
            [PStr (schema_or_main schema), PStr sequence_name])
         (\<lambda>res. io_pure (Inr (PBool (rowcount res = 1)))))"

subsection \<open>get methods\<close>

text \<open>
  \<open>[col_val for row in rows for col_val in row]\<close> is \<open>concat rows\<close>. The dict displays
  built from a row are named after the records they produce.
\<close>

definition get_table_names :: "connection \<Rightarrow> string option \<Rightarrow> pyval io" where
  "get_table_names conn schema =
     with_cursor conn (\<lambda>cur.
       io_bind (cursor_execute cur Get_tables [PStr (schema_or_main schema)]) (\<lambda>res.
       io_bind (io_pure (fetchall res)) (\<lambda>rows.
       io_pure (Inr (PList (concat rows))))))"

definition get_view_names :: "connection \<Rightarrow> string option \<Rightarrow> pyval io" where
  "get_view_names conn schema =
     with_cursor conn (\<lambda>cur.
       io_bind (cursor_execute cur Get_views [PStr (schema_or_main schema)]) (\<lambda>res.
       io_bind (io_pure (fetchall res)) (\<lambda>rows.
       io_pure (Inr (PList (concat rows))))))"

definition get_view_definition :: "connection \<Rightarrow> string \<Rightarrow> string option \<Rightarrow> pyval io" where
  "get_view_definition conn view_name schema =
     with_cursor conn (\<lambda>cur.
       io_bind
         (cursor_execute cur Get_view_sql [PStr (schema_or_main schema), PStr view_name])
         (\<lambda>res.
       io_bind (io_pure (fetchone res)) (\<lambda>row.
       io_pure (case row of None \<Rightarrow> Inr (PStr []) | Some r \<Rightarrow> subscript r 0))))"

definition constraint_record :: "pyval list \<Rightarrow> error + pyval" where
  "constraint_record row =
     (case subscript row 0 of
        Inl e \<Rightarrow> Inl e
      | Inr name \<Rightarrow>
          (case subscript row 1 of
             Inl e \<Rightarrow> Inl e
           | Inr column_names \<Rightarrow>
               Inr (PDict [(''name'', name), (''column_names'', column_names)])))"

definition get_unique_constraints :: "connection \<Rightarrow> string \<Rightarrow> string option \<Rightarrow> pyval io" where
  "get_unique_constraints conn table_name schema =
     with_cursor conn (\<lambda>cur.
       io_bind
         (cursor_execute cur Get_constraints
            [PStr (schema_or_main schema), PStr table_name, PStr ''UNIQUE''])
         (\<lambda>res.
       io_bind (io_pure (fetchall res)) (\<lambda>rows.
       io_bind (io_pure (comprehension constraint_record rows)) (\<lambda>list_of_maps.
       io_pure (Inr (PList list_of_maps))))))"

text \<open>
  \<open>get_temp_view_names\<close> has a \<open>schema\<close> argument and does not read it: the source says
  "hence schema is ignored for query" and passes \<open>parameters=[]\<close>.
\<close>

definition get_temp_view_names :: "connection \<Rightarrow> string option \<Rightarrow> pyval io" where
  "get_temp_view_names conn schema =
     with_cursor conn (\<lambda>cur.
       io_bind (cursor_execute cur Get_temp_views []) (\<lambda>res.
       io_bind (io_pure (fetchall res)) (\<lambda>rows.
       io_pure (Inr (PList (concat rows))))))"

definition get_temp_table_names :: "connection \<Rightarrow> string option \<Rightarrow> pyval io" where
  "get_temp_table_names conn schema =
     with_cursor conn (\<lambda>cur.
       io_bind (cursor_execute cur Get_temp_tables [PStr (schema_or_main schema)]) (\<lambda>res.
       io_bind (io_pure (fetchall res)) (\<lambda>rows.
       io_pure (Inr (PList (concat rows))))))"

definition get_table_comment :: "connection \<Rightarrow> string \<Rightarrow> string option \<Rightarrow> pyval io" where
  "get_table_comment conn table_name schema = io_pure (Inl NotImplementedError)"

definition get_sequence_names :: "connection \<Rightarrow> string option \<Rightarrow> pyval io" where
  "get_sequence_names conn schema =
     with_cursor conn (\<lambda>cur.
       io_bind (cursor_execute cur Get_sequences [PStr (schema_or_main schema)]) (\<lambda>res.
       io_bind (io_pure (fetchall res)) (\<lambda>rows.
       io_pure (Inr (PList (concat rows))))))"

definition get_pk_constraint :: "connection \<Rightarrow> string \<Rightarrow> string option \<Rightarrow> pyval io" where
  "get_pk_constraint conn table_name schema =
     with_cursor conn (\<lambda>cur.
       io_bind
         (cursor_execute cur Get_constraints
            [PStr (schema_or_main schema), PStr table_name, PStr ''PRIMARY KEY''])
         (\<lambda>res.
       io_bind (io_pure (fetchone res)) (\<lambda>row.
       io_bind
         (io_pure (case row of
                     Some r \<Rightarrow> comprehension constraint_record [r]
                   | None \<Rightarrow> Inr []))
         (\<lambda>list_of_maps.
       io_pure (Inr (PList list_of_maps))))))"

text \<open>
  \<open>get_indexes\<close> first builds \<open>{"name": row[0], "sql": row[1], "unique": row[2]}\<close> for
  every row, then runs the loop body \<open>add_column_names\<close> on every map: set
  \<open>column_names\<close> to the empty list, look for the parenthesised group in \<open>mp["sql"]\<close>
  (\<open>re.search\<close> raises \<open>TypeError\<close> unless it is given a string), on a match replace
  \<open>column_names\<close> by the stripped pieces between the commas, and delete the key \<open>sql\<close>.
\<close>

definition index_map :: "pyval list \<Rightarrow> error + (string \<times> pyval) list" where
  "index_map row =
     (case subscript row 0 of
        Inl e \<Rightarrow> Inl e
      | Inr name \<Rightarrow>
          (case subscript row 1 of
             Inl e \<Rightarrow> Inl e
           | Inr sql \<Rightarrow>
               (case subscript row 2 of
                  Inl e \<Rightarrow> Inl e
                | Inr unique \<Rightarrow>
                    Inr [(''name'', name), (''sql'', sql), (''unique'', unique)])))"

definition add_column_names :: "(string \<times> pyval) list \<Rightarrow> error + pyval" where
  "add_column_names mp =
     (let mp1 = AList.update ''column_names'' (PList []) mp
      in case map_of mp1 ''sql'' of
           None \<Rightarrow> Inl KeyError
         | Some (PStr sql) \<Rightarrow>
             (let mp2 =
                (case re_search sql of
                   Some group1 \<Rightarrow>
                     AList.update ''column_names''
                       (PList (map (\<lambda>column. PStr (strip column)) (split_on CHR '','' group1)))
                       mp1
                 | None \<Rightarrow> mp1)
              in Inr (PDict (AList.delete ''sql'' mp2)))
         | Some _ \<Rightarrow> Inl TypeError)"

definition get_indexes :: "connection \<Rightarrow> string \<Rightarrow> string option \<Rightarrow> pyval io" where
  "get_indexes conn table_name schema =
     with_cursor conn (\<lambda>cur.
       io_bind
         (cursor_execute cur Get_indexes [PStr (schema_or_main schema), PStr table_name])
         (\<lambda>res.
       io_bind (io_pure (fetchall res)) (\<lambda>rows.
       io_bind (io_pure (comprehension index_map rows)) (\<lambda>list_of_maps.
       io_bind (io_pure (comprehension add_column_names list_of_maps)) (\<lambda>list_of_maps.
       io_pure (Inr (PList list_of_maps)))))))"

definition get_foreign_keys :: "connection \<Rightarrow> string \<Rightarrow> string option \<Rightarrow> pyval io" where
  "get_foreign_keys conn table_name schema =
     with_cursor conn (\<lambda>cur.
       io_bind
         (cursor_execute cur Get_constraints
            [PStr (schema_or_main schema), PStr table_name, PStr ''FOREIGN KEY''])
         (\<lambda>res.
       io_bind (io_pure (fetchall res)) (\<lambda>rows.
       io_bind (io_pure (comprehension constraint_record rows)) (\<lambda>list_of_maps.
       io_pure (Inr (PList list_of_maps))))))"

definition column_record :: "pyval list \<Rightarrow> error + pyval" where
  "column_record row =
     (case subscript row 0 of
        Inl e \<Rightarrow> Inl e
      | Inr name \<Rightarrow>
          (case subscript row 1 of
             Inl e \<Rightarrow> Inl e
           | Inr type \<Rightarrow>
               (case subscript row 2 of
                  Inl e \<Rightarrow> Inl e
                | Inr nullable \<Rightarrow>
                    (case subscript row 3 of
                       Inl e \<Rightarrow> Inl e
                     | Inr dflt \<Rightarrow>
                         Inr (PDict [(''name'', name), (''type'', type),
                                     (''nullable'', nullable), (''default'', dflt)])))))"

definition get_columns :: "connection \<Rightarrow> string \<Rightarrow> string option \<Rightarrow> pyval io" where
  "get_columns conn table_name schema =
     with_cursor conn (\<lambda>cur.
       io_bind
         (cursor_execute cur Get_columns [PStr (schema_or_main schema), PStr table_name])
         (\<lambda>res.
       io_bind (io_pure (fetchall res)) (\<lambda>rows.
       io_bind (io_pure (comprehension column_record rows)) (\<lambda>list_of_maps.
       io_pure (Inr (PList list_of_maps))))))"

definition check_constraint_record :: "pyval list \<Rightarrow> error + pyval" where
  "check_constraint_record row =
     (case subscript row 0 of
        Inl e \<Rightarrow> Inl e
      | Inr name \<Rightarrow>
          (case subscript row 1 of
             Inl e \<Rightarrow> Inl e
           | Inr sqltext \<Rightarrow> Inr (PDict [(''name'', name), (''sqltext'', sqltext)])))"

definition get_check_constraints :: "connection \<Rightarrow> string \<Rightarrow> string option \<Rightarrow> pyval io" where
  "get_check_constraints conn table_name schema =
     with_cursor conn (\<lambda>cur.
       io_bind
         (cursor_execute cur Get_check_constraint
            [PStr (schema_or_main schema), PStr table_name])
         (\<lambda>res.
       io_bind (io_pure (fetchall res)) (\<lambda>rows.
       io_bind (io_pure (comprehension check_constraint_record rows)) (\<lambda>list_of_maps.
       io_pure (Inr (PList list_of_maps))))))"

subsection \<open>Transaction control, isolation level, connect arguments\<close>

text \<open>
  The dialect object: the one attribute these methods read is \<open>isolation_level\<close>, which
  the class sets to \<open>"SNAPSHOT"\<close>. A method takes \<open>self\<close> and returns it with its outcome,
  so that a method that assigned to the attribute would show.
\<close>

record dialect =
  isolation_level :: string

definition RadioDuckDialect :: dialect where
  "RadioDuckDialect = \<lparr>isolation_level = ''SNAPSHOT''\<rparr>"

type_synonym 'a dialect_method = "dialect \<Rightarrow> (error + 'a) \<times> dialect"

definition do_savepoint :: "connection \<Rightarrow> string \<Rightarrow> pyval dialect_method" where
  "do_savepoint conn name self = (Inl NotImplementedError, self)"

definition do_rollback_to_savepoint :: "connection \<Rightarrow> string \<Rightarrow> pyval dialect_method" where
  "do_rollback_to_savepoint conn name self = (Inl NotImplementedError, self)"

definition do_rollback :: "connection \<Rightarrow> pyval dialect_method" where
  "do_rollback dbapi_connection self = (Inr PNone, self)"

definition do_release_savepoint :: "connection \<Rightarrow> string \<Rightarrow> pyval dialect_method" where
  "do_release_savepoint conn name self = (Inl NotImplementedError, self)"

definition do_recover_twophase :: "connection \<Rightarrow> pyval dialect_method" where
  "do_recover_twophase conn self = (Inl NotImplementedError, self)"

definition do_prepare_twophase :: "connection \<Rightarrow> pyval \<Rightarrow> pyval dialect_method" where
  "do_prepare_twophase conn xid self = (Inl NotImplementedError, self)"

definition do_commit_twophase :: "connection \<Rightarrow> pyval \<Rightarrow> bool \<Rightarrow> bool \<Rightarrow> pyval dialect_method" where
  "do_commit_twophase conn xid is_prepared recover self = (Inl NotImplementedError, self)"

definition do_commit :: "connection \<Rightarrow> pyval dialect_method" where
  "do_commit dbapi_connection self = (Inr PNone, self)"

definition do_begin_twophase :: "connection \<Rightarrow> pyval \<Rightarrow> pyval dialect_method" where
  "do_begin_twophase conn xid self = (Inl NotImplementedError, self)"

definition do_begin :: "connection \<Rightarrow> pyval dialect_method" where
  "do_begin dbapi_connection self = (Inr PNone, self)"

text \<open>
  \<open>create_connect_args\<close>: \<open>url.translate_connect_args()\<close> gives a dict, \<open>url.query\<close> is a
  mapping, and \<open>opts.update(url.query)\<close> is \<open>++\<close> on maps. The result is the pair of the
  empty list and the updated dict.
\<close>

record url =
  translate_connect_args :: "string \<rightharpoonup> pyval"
  query :: "string \<rightharpoonup> pyval"

definition create_connect_args :: "url \<Rightarrow> (pyval list \<times> (string \<rightharpoonup> pyval)) dialect_method" where
  "create_connect_args u self =
     (let opts = translate_connect_args u;
          opts = opts ++ query u
      in (Inr ([], opts), self))"

definition create_xid :: "pyval dialect_method" where
  "create_xid self = (Inl (NotSupportedError ''transactions not supported over http yet''), self)"

definition reset_isolation_level :: "connection \<Rightarrow> pyval dialect_method" where
  "reset_isolation_level dbapi_conn self = (Inr PNone, self)"

definition set_isolation_level :: "connection \<Rightarrow> pyval \<Rightarrow> pyval dialect_method" where
  "set_isolation_level dbapi_conn level self = (Inr PNone, self)"

definition get_isolation_level :: "connection \<Rightarrow> pyval dialect_method" where
  "get_isolation_level dbapi_conn self = (Inr (PStr (isolation_level self)), self)"

definition get_default_isolation_level :: "connection \<Rightarrow> pyval dialect_method" where
  "get_default_isolation_level dbapi_conn self = (Inr (PStr (isolation_level self)), self)"

subsection \<open>Vocabulary of the properties\<close>

text \<open>
  A schema argument is blank when it is absent, empty or made of whitespace only.
\<close>

definition blank :: "string option \<Rightarrow> bool" where
  "blank schema = (case schema of None \<Rightarrow> True | Some s \<Rightarrow> list_all isspace s)"

text \<open>
  The statements a method leaves in the session when it executes \<open>q\<close> once with
  \<open>parameters\<close>: nothing when \<open>connection.cursor()\<close> raised, that one statement otherwise.
\<close>

definition issued ::
  "connection \<Rightarrow> catalog_query \<Rightarrow> pyval list \<Rightarrow> (catalog_query \<times> pyval list) list" where
  "issued conn q parameters = (case cursor conn of Inl e \<Rightarrow> [] | Inr cur \<Rightarrow> [(q, parameters)])"

text \<open>
  The cursors a method has to close on a connection: none when \<open>connection.cursor()\<close>
  raises, the cursor it hands out otherwise. A session is \<open>released\<close> for a connection
  when \<open>close()\<close> has been called exactly once on that cursor and on nothing else, and
  no cursor is left open.
\<close>

definition obtained :: "connection \<Rightarrow> cursor list" where
  "obtained conn = (case cursor conn of Inl e \<Rightarrow> [] | Inr cur \<Rightarrow> [cur])"

definition released :: "connection \<Rightarrow> session \<Rightarrow> bool" where
  "released conn s = (closed s = obtained conn \<and> \<not> cursor_open s)"

text \<open>
  Three connections to run the methods on: one whose cursor answers every statement with
  the given rows, one whose cursor raises on every \<open>execute\<close>, and one whose
  \<open>cursor()\<close> raises.
\<close>

definition replay_result :: "pyval list list \<Rightarrow> result_set" where
  "replay_result rows =
     \<lparr>rowcount = int (length rows),
      fetchall = Inr rows,
      fetchone = Inr (case rows of [] \<Rightarrow> None | row # _ \<Rightarrow> Some row)\<rparr>"

definition replay_connection :: "pyval list list \<Rightarrow> connection" where
  "replay_connection rows =
     \<lparr>cursor = Inr \<lparr>execute = (\<lambda>q parameters. Inr (replay_result rows)), close = None\<rparr>\<rparr>"

definition failing_connection :: connection where
  "failing_connection =
     \<lparr>cursor = Inr \<lparr>execute = (\<lambda>q parameters. Inl (DriverError ''boom'')), close = None\<rparr>\<rparr>"

definition refusing_connection :: connection where
  "refusing_connection = \<lparr>cursor = Inl (DriverError ''down'')\<rparr>"

text \<open>
  A call to one of the five no-op methods, and a sequence of such calls on the same
  dialect object, keeping every outcome.
\<close>

datatype lifecycle_call =
    Do_begin connection
  | Do_commit connection
  | Do_rollback connection
  | Reset_isolation_level connection
  | Set_isolation_level connection pyval

fun invoke :: "lifecycle_call \<Rightarrow> pyval dialect_method" where
  "invoke (Do_begin c) = do_begin c"
| "invoke (Do_commit c) = do_commit c"
| "invoke (Do_rollback c) = do_rollback c"
| "invoke (Reset_isolation_level c) = reset_isolation_level c"
| "invoke (Set_isolation_level c level) = set_isolation_level c level"

fun invoke_all :: "lifecycle_call list \<Rightarrow> dialect \<Rightarrow> (error + pyval) list \<times> dialect" where
  "invoke_all [] self = ([], self)"
| "invoke_all (c # cs) self =
     (case invoke c self of
        (r, self1) \<Rightarrow> (case invoke_all cs self1 of (rs, self2) \<Rightarrow> (r # rs, self2)))"

text \<open>
  The reading of "the first parenthesized group" of an SQL text taken for the comparison
  with \<open>re_search\<close>: the text between the first opening parenthesis and the next closing
  parenthesis after it, if both exist. \<open>column_names_of\<close> splits that group on commas and
  strips each piece; \<open>on_one_line\<close> says that the group, if any, holds no line feed.
\<close>

definition first_parenthesized_group :: "string \<Rightarrow> string option" where
  "first_parenthesized_group s =
     (case dropWhile (\<lambda>c. c \<noteq> CHR ''('') s of
        [] \<Rightarrow> None
      | _ # rest \<Rightarrow>
          if CHR '')'' \<in> set rest then Some (takeWhile (\<lambda>c. c \<noteq> CHR '')'') rest) else None)"

definition column_names_of :: "string \<Rightarrow> pyval" where
  "column_names_of sql =
     PList (case first_parenthesized_group sql of
              None \<Rightarrow> []
            | Some g \<Rightarrow> map (\<lambda>column. PStr (strip column)) (split_on CHR '','' g))"

definition on_one_line :: "string \<Rightarrow> bool" where
  "on_one_line sql =
     (case first_parenthesized_group sql of None \<Rightarrow> True | Some g \<Rightarrow> CHR 0x0A \<notin> set g)"

text \<open>
  A row of the index query whose second column is a string, the record expected for it,
  and the test that a returned record has a given key.
\<close>

definition index_row :: "pyval \<times> string \<times> pyval \<times> pyval list \<Rightarrow> pyval list" where
  "index_row item = (case item of (name, sql, unique, rest) \<Rightarrow> name # PStr sql # unique # rest)"

definition index_record :: "pyval \<times> string \<times> pyval \<times> pyval list \<Rightarrow> pyval" where
  "index_record item =
     (case item of (name, sql, unique, rest) \<Rightarrow>
        PDict [(''name'', name), (''unique'', unique), (''column_names'', column_names_of sql)])"

definition has_key :: "string \<Rightarrow> pyval \<Rightarrow> bool" where
  "has_key k d = (case d of PDict m \<Rightarrow> k \<in> fst ` set m | _ \<Rightarrow> False)"

definition multi_line_sql :: string where
  "multi_line_sql = ''CREATE INDEX i ON t (a,'' @ CHR 0x0A # '' b)''"

section \<open>Properties\<close>

subsection \<open>Auxiliary facts\<close>

lemmas io_defs = with_cursor_def connection_cursor_def cursor_close_def cursor_execute_def
  io_bind_def io_pure_def

lemmas method_defs = has_index_def has_table_def has_sequence_def get_table_names_def
  get_view_names_def get_view_definition_def get_unique_constraints_def
  get_temp_view_names_def get_temp_table_names_def get_sequence_names_def
  get_pk_constraint_def get_indexes_def get_foreign_keys_def get_columns_def
  get_check_constraints_def

lemmas replay_defs = replay_connection_def replay_result_def failing_connection_def
  refusing_connection_def

lemma with_cursor_released:
  "released conn (snd (with_cursor conn
       (\<lambda>cur. io_bind (cursor_execute cur q ps) (\<lambda>res. io_pure (f res))) fresh))"
  by (simp add: with_cursor_def connection_cursor_def cursor_close_def cursor_execute_def
      io_bind_def io_pure_def fresh_def released_def obtained_def
      split: sum.splits prod.splits option.splits)

lemma dropWhile_all: "(\<forall>x\<in>set (dropWhile P xs). P x) \<longleftrightarrow> (\<forall>x\<in>set xs. P x)"
  by (induction xs) auto

lemma strip_empty: "strip s = [] \<longleftrightarrow> list_all isspace s"
  by (simp add: strip_def dropWhile_all list_all_iff)

lemma schema_or_main_blank: "blank schema \<Longrightarrow> schema_or_main schema = ''main''"
  by (cases schema) (auto simp: blank_def schema_or_main_def strip_empty [symmetric])

lemma io_pure_merge:
  "io_bind (io_pure r) (\<lambda>x. io_pure (g x)) =
     io_pure (case r of Inl e \<Rightarrow> Inl e | Inr x \<Rightarrow> g x)"
  by (rule ext) (simp add: io_bind_def io_pure_def split: sum.splits)

lemma executed_once:
  "executed (snd (with_cursor conn
       (\<lambda>cur. io_bind (cursor_execute cur q ps) (\<lambda>res. io_pure (f res))) fresh)) =
     issued conn q ps"
  by (simp add: io_defs fresh_def issued_def split: sum.splits prod.splits option.splits)

lemma result_once:
  "fst (with_cursor conn
       (\<lambda>cur. io_bind (cursor_execute cur q ps) (\<lambda>res. io_pure (f res))) s) =
     (case cursor conn of
        Inl e \<Rightarrow> Inl e
      | Inr cur \<Rightarrow>
          (case close cur of
             Some e \<Rightarrow> Inl e
           | None \<Rightarrow> (case execute cur q ps of Inl e \<Rightarrow> Inl e | Inr res \<Rightarrow> f res)))"
  by (simp add: io_defs split: sum.splits prod.splits option.splits)

subsection \<open>Cursor release\<close>

text \<open>
  Claim C1. Each of the fifteen introspection methods that obtain a cursor, started in a
  fresh session on any connection (whatever \<open>cursor()\<close>, \<open>execute\<close>, \<open>fetchall\<close>,
  \<open>fetchone\<close> and \<open>close\<close> do, and whatever the rows look like), ends in a released
  session, whether it returns or raises: when \<open>connection.cursor()\<close> handed out a
  cursor, \<open>close()\<close> has been called on that cursor, exactly once, and no cursor is
  open; when \<open>connection.cursor()\<close> raised, there was no cursor and nothing was closed.
\<close>

theorem cursor_always_closed:
  "released conn (snd (has_table conn table_name schema fresh)) \<and>
   released conn (snd (has_index conn table_name index_name schema fresh)) \<and>
   released conn (snd (has_sequence conn sequence_name schema fresh)) \<and>
   released conn (snd (get_table_names conn schema fresh)) \<and>
   released conn (snd (get_view_names conn schema fresh)) \<and>
   released conn (snd (get_temp_table_names conn schema fresh)) \<and>
   released conn (snd (get_temp_view_names conn schema fresh)) \<and>
   released conn (snd (get_sequence_names conn schema fresh)) \<and>
   released conn (snd (get_view_definition conn view_name schema fresh)) \<and>
   released conn (snd (get_columns conn table_name schema fresh)) \<and>
   released conn (snd (get_pk_constraint conn table_name schema fresh)) \<and>
   released conn (snd (get_unique_constraints conn table_name schema fresh)) \<and>
   released conn (snd (get_foreign_keys conn table_name schema fresh)) \<and>
   released conn (snd (get_check_constraints conn table_name schema fresh)) \<and>
   released conn (snd (get_indexes conn table_name schema fresh))"
  by (simp add: method_defs io_pure_merge with_cursor_released)

theorem cursor_always_closed_witness:
  "closed (snd (has_table failing_connection ''t'' None fresh)) =
     [\<lparr>execute = (\<lambda>q parameters. Inl (DriverError ''boom'')), close = None\<rparr>] \<and>
   \<not> cursor_open (snd (has_table failing_connection ''t'' None fresh)) \<and>
   closed (snd (get_indexes (replay_connection [[PStr ''i'']]) ''t'' None fresh)) =
     [\<lparr>execute = (\<lambda>q parameters. Inr (replay_result [[PStr ''i'']])), close = None\<rparr>] \<and>
   \<not> cursor_open (snd (get_indexes (replay_connection [[PStr ''i'']]) ''t'' None fresh)) \<and>
   closed (snd (get_view_definition refusing_connection ''v'' None fresh)) = [] \<and>
   \<not> cursor_open (snd (get_view_definition refusing_connection ''v'' None fresh))"
  using cursor_always_closed [of failing_connection "''t''" None]
    cursor_always_closed [of "replay_connection [[PStr ''i'']]" "''t''" None]
    cursor_always_closed [of refusing_connection _ None _ _ "''v''"]
  by (simp add: released_def obtained_def replay_connection_def failing_connection_def
      refusing_connection_def)

subsection \<open>Schema default\<close>

text \<open>
  Claim C2, amended. For a blank schema argument, each of the fourteen methods that bind
  a schema parameter issues its catalog query with \<open>"main"\<close> as the first parameter:
  every schema-taking method that runs a query except \<open>get_temp_view_names\<close>, which
  binds none.
\<close>

theorem blank_schema_bound_to_main:
  assumes "blank schema"
  shows
  "executed (snd (has_index conn table_name index_name schema fresh)) =
     issued conn Has_index_query [PStr ''main'', PStr table_name, PStr index_name] \<and>
   executed (snd (has_table conn table_name schema fresh)) =
     issued conn Has_table_query [PStr ''main'', PStr table_name] \<and>
   executed (snd (has_sequence conn sequence_name schema fresh)) =
     issued conn Has_sequence_query [PStr ''main'', PStr sequence_name] \<and>
   executed (snd (get_table_names conn schema fresh)) =
     issued conn Get_tables [PStr ''main''] \<and>
   executed (snd (get_view_names conn schema fresh)) =
     issued conn Get_views [PStr ''main''] \<and>
   executed (snd (get_view_definition conn view_name schema fresh)) =
     issued conn Get_view_sql [PStr ''main'', PStr view_name] \<and>
   executed (snd (get_unique_constraints conn table_name schema fresh)) =
     issued conn Get_constraints [PStr ''main'', PStr table_name, PStr ''UNIQUE''] \<and>
   executed (snd (get_temp_table_names conn schema fresh)) =
     issued conn Get_temp_tables [PStr ''main''] \<and>
   executed (snd (get_sequence_names conn schema fresh)) =
     issued conn Get_sequences [PStr ''main''] \<and>
   executed (snd (get_pk_constraint conn table_name schema fresh)) =
     issued conn Get_constraints [PStr ''main'', PStr table_name, PStr ''PRIMARY KEY''] \<and>
   executed (snd (get_indexes conn table_name schema fresh)) =
     issued conn Get_indexes [PStr ''main'', PStr table_name] \<and>
   executed (snd (get_foreign_keys conn table_name schema fresh)) =
     issued conn Get_constraints [PStr ''main'', PStr table_name, PStr ''FOREIGN KEY''] \<and>
   executed (snd (get_columns conn table_name schema fresh)) =
     issued conn Get_columns [PStr ''main'', PStr table_name] \<and>
   executed (snd (get_check_constraints conn table_name schema fresh)) =
     issued conn Get_check_constraint [PStr ''main'', PStr table_name]"
  using schema_or_main_blank [OF assms]
  by (simp add: method_defs io_pure_merge executed_once)

theorem blank_schema_bound_to_main_witness:
  "blank (Some [CHR '' '', CHR 0x09]) \<and>
   executed (snd (has_index (replay_connection []) ''t'' ''i'' (Some [CHR '' '', CHR 0x09]) fresh)) =
     [(Has_index_query, [PStr ''main'', PStr ''t'', PStr ''i''])] \<and>
   executed (snd (get_temp_table_names (replay_connection []) (Some [CHR '' '', CHR 0x09]) fresh)) =
     [(Get_temp_tables, [PStr ''main''])]"
proof -
  have b: "blank (Some [CHR '' '', CHR 0x09])"
    by (simp add: blank_def isspace_def)
  show ?thesis
    using b blank_schema_bound_to_main [OF b, of "replay_connection []" "''t''" "''i''"]
    by (simp add: issued_def replay_defs)
qed

text \<open>
  Claim C2 as stated fails on \<open>get_temp_view_names\<close>: with an absent schema it issues its
  query with the empty parameter list, so no parameter is bound to \<open>"main"\<close>.
\<close>

theorem temp_view_names_binds_no_schema:
  "blank None \<and>
   executed (snd (get_temp_view_names (replay_connection []) None fresh)) =
     [(Get_temp_views, [])]"
  by (simp add: blank_def get_temp_view_names_def io_pure_merge executed_once issued_def
      replay_defs)

subsection \<open>Temporary tables and views\<close>

text \<open>
  Claim C3, amended. \<open>get_temp_view_names\<close> issues its query with the empty parameter
  list; \<open>get_temp_table_names\<close> issues its query with exactly one parameter, the schema
  argument after the default has been applied.
\<close>

theorem temp_queries_parameters:
  "executed (snd (get_temp_view_names conn schema fresh)) = issued conn Get_temp_views [] \<and>
   executed (snd (get_temp_table_names conn schema fresh)) =
     issued conn Get_temp_tables [PStr (schema_or_main schema)]"
  by (simp add: get_temp_view_names_def get_temp_table_names_def io_pure_merge executed_once)

theorem temp_queries_parameters_witness:
  "executed (snd (get_temp_view_names (replay_connection []) (Some ''s'') fresh)) =
     [(Get_temp_views, [])] \<and>
   executed (snd (get_temp_table_names (replay_connection []) (Some ''s'') fresh)) =
     [(Get_temp_tables, [PStr ''s''])]"
  using temp_queries_parameters [of "replay_connection []" "Some ''s''"]
  by (simp add: issued_def replay_defs schema_or_main_def strip_def isspace_def)

text \<open>
  Claim C3 as stated fails on \<open>get_temp_table_names\<close>: with an absent schema its
  parameter list holds the schema value \<open>"main"\<close>.
\<close>

theorem temp_table_names_binds_schema:
  "executed (snd (get_temp_table_names (replay_connection []) None fresh)) =
     [(Get_temp_tables, [PStr ''main''])]"
  by (simp add: get_temp_table_names_def io_pure_merge executed_once issued_def replay_defs
      schema_or_main_def)

text \<open>
  Claim C10. \<open>get_temp_view_names\<close> does not depend on its schema argument: for any two
  schema values, from any session, the outcome and the final session are the same; the
  query issued is \<open>get_temp_views\<close> with the empty parameter list; and when the cursor
  calls succeed the value returned is the flattened list of the fetched rows.
\<close>

theorem temp_view_names_ignore_schema:
  "get_temp_view_names conn schema1 s = get_temp_view_names conn schema2 s \<and>
   executed (snd (get_temp_view_names conn schema1 fresh)) = issued conn Get_temp_views [] \<and>
   (cursor conn = Inr cur \<and> close cur = None \<and> execute cur Get_temp_views [] = Inr res \<and>
    fetchall res = Inr rows \<longrightarrow>
      fst (get_temp_view_names conn schema1 fresh) = Inr (PList (concat rows)) \<and>
      fst (get_temp_view_names conn schema2 fresh) = Inr (PList (concat rows)))"
  by (simp add: get_temp_view_names_def io_pure_merge executed_once result_once)

theorem temp_view_names_ignore_schema_witness:
  "fst (get_temp_view_names (replay_connection [[PStr ''v1''], [PStr ''v2'']]) None fresh) =
     Inr (PList [PStr ''v1'', PStr ''v2'']) \<and>
   fst (get_temp_view_names (replay_connection [[PStr ''v1''], [PStr ''v2'']])
          (Some ''other'') fresh) =
     Inr (PList [PStr ''v1'', PStr ''v2''])"
  using temp_view_names_ignore_schema
      [of "replay_connection [[PStr ''v1''], [PStr ''v2'']]" None fresh "Some ''other''" _
        "replay_result [[PStr ''v1''], [PStr ''v2'']]" "[[PStr ''v1''], [PStr ''v2'']]"]
  by (simp add: replay_defs)

subsection \<open>Existence checks\<close>

text \<open>
  Claim C4. \<open>has_table\<close>, \<open>has_index\<close> and \<open>has_sequence\<close> return a value exactly when
  \<open>cursor()\<close>, \<open>execute\<close> of the existence query and \<open>close()\<close> all succeed, and the
  value is then the boolean "the row count reported after \<open>execute\<close> equals 1": true for
  1, false for 0 and for every other count.
\<close>

theorem has_methods_rowcount:
  "(fst (has_table conn table_name schema fresh) = Inr v \<longleftrightarrow>
      (\<exists>cur res. cursor conn = Inr cur \<and> close cur = None \<and>
         execute cur Has_table_query [PStr (schema_or_main schema), PStr table_name] = Inr res \<and>
         v = PBool (rowcount res = 1))) \<and>
   (fst (has_index conn table_name index_name schema fresh) = Inr v \<longleftrightarrow>
      (\<exists>cur res. cursor conn = Inr cur \<and> close cur = None \<and>
         execute cur Has_index_query
           [PStr (schema_or_main schema), PStr table_name, PStr index_name] = Inr res \<and>
         v = PBool (rowcount res = 1))) \<and>
   (fst (has_sequence conn sequence_name schema fresh) = Inr v \<longleftrightarrow>
      (\<exists>cur res. cursor conn = Inr cur \<and> close cur = None \<and>
         execute cur Has_sequence_query
           [PStr (schema_or_main schema), PStr sequence_name] = Inr res \<and>
         v = PBool (rowcount res = 1)))"
proof -
  have returns: "\<And>conn q ps v.
     (case cursor conn of
        Inl e \<Rightarrow> Inl e
      | Inr cur \<Rightarrow>
          (case close cur of
             Some e \<Rightarrow> Inl e
           | None \<Rightarrow>
               (case execute cur q ps of
                  Inl e \<Rightarrow> Inl e
                | Inr res \<Rightarrow> Inr (PBool (rowcount res = 1))))) = Inr v
     \<longleftrightarrow> (\<exists>cur res. cursor conn = Inr cur \<and> close cur = None \<and>
            execute cur q ps = Inr res \<and> v = PBool (rowcount res = 1))"
    by (auto split: sum.splits option.splits)
  show ?thesis
    by (simp only: has_table_def has_index_def has_sequence_def result_once returns)
qed

theorem has_methods_rowcount_witness:
  "fst (has_table (replay_connection [[PStr ''t'']]) ''t'' None fresh) = Inr (PBool True) \<and>
   fst (has_index (replay_connection []) ''t'' ''i'' None fresh) = Inr (PBool False) \<and>
   fst (has_sequence (replay_connection [[PStr ''s''], [PStr ''s'']]) ''s'' None fresh) =
     Inr (PBool False)"
  using has_methods_rowcount [of "replay_connection [[PStr ''t'']]" "''t''" None "PBool True"]
    has_methods_rowcount [of "replay_connection []" "''t''" None "PBool False" "''i''"]
    has_methods_rowcount
      [of "replay_connection [[PStr ''s''], [PStr ''s'']]" _ None "PBool False" _ "''s''"]
  by (simp add: replay_defs)

subsection \<open>Index columns\<close>

lemma group_after_paren_None: "CHR '')'' \<notin> set s \<Longrightarrow> group_after_paren s = None"
  by (induction s) auto

lemma re_search_None: "CHR '')'' \<notin> set s \<Longrightarrow> re_search s = None"
  by (induction s) (auto simp: group_after_paren_None)

lemma group_after_paren_Some:
  "CHR '')'' \<in> set s \<Longrightarrow> CHR 0x0A \<notin> set (takeWhile (\<lambda>c. c \<noteq> CHR '')'') s) \<Longrightarrow>
   group_after_paren s = Some (takeWhile (\<lambda>c. c \<noteq> CHR '')'') s)"
  by (induction s) auto

lemma re_search_first_group:
  "on_one_line s \<Longrightarrow> re_search s = first_parenthesized_group s"
proof (induction s)
  case Nil
  show ?case by (simp add: first_parenthesized_group_def)
next
  case (Cons c cs)
  show ?case
  proof (cases "c = CHR ''(''")
    case False
    with Cons show ?thesis
      by (simp add: first_parenthesized_group_def on_one_line_def)
  next
    case True
    show ?thesis
    proof (cases "CHR '')'' \<in> set cs")
      case no: False
      with True show ?thesis
        by (simp add: first_parenthesized_group_def group_after_paren_None re_search_None)
    next
      case yes: True
      with True Cons.prems have "CHR 0x0A \<notin> set (takeWhile (\<lambda>c. c \<noteq> CHR '')'') cs)"
        by (simp add: first_parenthesized_group_def on_one_line_def)
      with yes True show ?thesis
        by (simp add: first_parenthesized_group_def group_after_paren_Some)
    qed
  qed
qed

lemma index_map_row:
  "index_map (index_row (name, sql, unique, rest)) =
     Inr [(''name'', name), (''sql'', PStr sql), (''unique'', unique)]"
  by (simp add: index_map_def index_row_def subscript_def)

lemma add_column_names_built:
  "add_column_names [(''name'', name), (''sql'', PStr sql), (''unique'', unique)] =
     Inr (PDict [(''name'', name), (''unique'', unique),
                 (''column_names'',
                  PList (case re_search sql of
                           None \<Rightarrow> []
                         | Some g \<Rightarrow>
                             map (\<lambda>column. PStr (strip column)) (split_on CHR '','' g)))])"
  by (simp add: add_column_names_def split: option.splits)

lemma comprehension_index_map:
  "comprehension index_map (map index_row items) =
     Inr (map (\<lambda>(name, sql, unique, rest).
                 [(''name'', name), (''sql'', PStr sql), (''unique'', unique)]) items)"
  by (induction items) (auto simp: index_map_row)

lemma comprehension_built:
  "comprehension add_column_names
     (map (\<lambda>(name, sql, unique, rest).
             [(''name'', name), (''sql'', PStr sql), (''unique'', unique)]) items) =
     Inr (map (\<lambda>(name, sql, unique, rest).
                 PDict [(''name'', name), (''unique'', unique),
                        (''column_names'',
                         PList (case re_search sql of
                                  None \<Rightarrow> []
                                | Some g \<Rightarrow>
                                    map (\<lambda>column. PStr (strip column))
                                      (split_on CHR '','' g)))]) items)"
  by (induction items) (auto simp: add_column_names_built)

lemma comprehension_elems:
  "comprehension f xs = Inr ys \<Longrightarrow> y \<in> set ys \<Longrightarrow> \<exists>x\<in>set xs. f x = Inr y"
  by (induction xs arbitrary: ys) (auto split: sum.splits)

lemma deleted_key_gone: "(k, v) \<notin> set (AList.delete k al)"
  by (induction al) auto

lemma add_column_names_no_sql: "add_column_names mp = Inr d \<Longrightarrow> \<not> has_key ''sql'' d"
  by (auto simp: add_column_names_def has_key_def Let_def deleted_key_gone
      split: option.splits pyval.splits)

lemma get_indexes_outcome:
  assumes "cursor conn = Inr cur" and "close cur = None"
    and "execute cur Get_indexes [PStr (schema_or_main schema), PStr table_name] = Inr res"
  shows "fst (get_indexes conn table_name schema fresh) =
     (case fetchall res of
        Inl e \<Rightarrow> Inl e
      | Inr rows \<Rightarrow>
          (case comprehension index_map rows of
             Inl e \<Rightarrow> Inl e
           | Inr maps \<Rightarrow>
               (case comprehension add_column_names maps of
                  Inl e \<Rightarrow> Inl e
                | Inr records \<Rightarrow> Inr (PList records))))"
  using assms by (simp add: get_indexes_def io_pure_merge result_once)

text \<open>
  What \<open>get_indexes\<close> does row by row. When the cursor calls succeed and every fetched
  row carries a string as its second column, one record is returned per row, in order;
  the record of a row is the expected \<open>index_record\<close> whenever the first parenthesized
  group of that row's SQL text holds no line feed (or there is no group), whatever the
  other rows are.
\<close>

theorem get_indexes_single_line_rows:
  assumes "cursor conn = Inr cur" and "close cur = None"
    and "execute cur Get_indexes [PStr (schema_or_main schema), PStr table_name] = Inr res"
    and "fetchall res = Inr (map index_row items)"
  shows "\<exists>records.
     fst (get_indexes conn table_name schema fresh) = Inr (PList records) \<and>
     length records = length items \<and>
     (\<forall>i<length items.
        on_one_line (fst (snd (items ! i))) \<longrightarrow> records ! i = index_record (items ! i))"
proof -
  let ?rec = "\<lambda>(name, sql, unique, rest).
                PDict [(''name'', name), (''unique'', unique),
                       (''column_names'',
                        PList (case re_search sql of
                                 None \<Rightarrow> []
                               | Some g \<Rightarrow>
                                   map (\<lambda>column. PStr (strip column))
                                     (split_on CHR '','' g)))]"
  have r: "fst (get_indexes conn table_name schema fresh) = Inr (PList (map ?rec items))"
    using assms(4)
    by (simp add: get_indexes_outcome [OF assms(1-3)] comprehension_index_map
        comprehension_built)
  have "map ?rec items ! i = index_record (items ! i)"
    if "i < length items" and "on_one_line (fst (snd (items ! i)))" for i
  proof -
    obtain name sql unique rest where "items ! i = (name, sql, unique, rest)"
      by (cases "items ! i") auto
    with that show ?thesis
      by (simp add: index_record_def column_names_of_def re_search_first_group)
  qed
  with r show ?thesis by auto
qed

text \<open>Whatever the rows are, no record that \<open>get_indexes\<close> returns has the key \<open>sql\<close>.\<close>

theorem get_indexes_drops_sql:
  assumes "cursor conn = Inr cur" and "close cur = None"
    and "execute cur Get_indexes [PStr (schema_or_main schema), PStr table_name] = Inr res"
    and "fst (get_indexes conn table_name schema fresh) = Inr (PList records)"
  shows "list_all (\<lambda>d. \<not> has_key ''sql'' d) records"
proof -
  from assms(4) obtain maps where "comprehension add_column_names maps = Inr records"
    by (auto simp: get_indexes_outcome [OF assms(1-3)] split: sum.splits)
  then show ?thesis
    by (auto simp: list_all_iff dest: comprehension_elems add_column_names_no_sql)
qed

text \<open>
  A result set with three rows: columns on one line, no parenthesized group, and the
  column list broken over two lines. The first two records are as expected.
\<close>

theorem get_indexes_mixed_rows:
  "fst (get_indexes
          (replay_connection
             [[PStr ''idx'', PStr ''CREATE INDEX idx ON t (col_a, col_b);'', PBool False],
              [PStr ''bad'', PStr ''CREATE INDEX bad ON t'', PBool True],
              [PStr ''i'', PStr multi_line_sql, PBool False]])
          ''t'' None fresh) =
     Inr (PList [PDict [(''name'', PStr ''idx''), (''unique'', PBool False),
                        (''column_names'', PList [PStr ''col_a'', PStr ''col_b''])],
                 PDict [(''name'', PStr ''bad''), (''unique'', PBool True),
                        (''column_names'', PList [])],
                 PDict [(''name'', PStr ''i''), (''unique'', PBool False),
                        (''column_names'', PList [])]])"
  by (simp add: multi_line_sql_def strip_def isspace_def get_indexes_def io_pure_merge
      result_once replay_defs index_map_def subscript_def add_column_names_def)

text \<open>
  Claim C5 fails on the code at an index whose column list is broken over two lines.
  The first parenthesized group of \<open>multi_line_sql\<close> exists, and split on commas and
  stripped it gives the column names \<open>a\<close> and \<open>b\<close>; \<open>get_indexes\<close> returns the empty list
  of column names for that row, because \<open>.\<close> in the regular expression does not match
  the line feed and the search finds no match.
\<close>

theorem get_indexes_multi_line_group:
  "first_parenthesized_group multi_line_sql = Some (''a,'' @ CHR 0x0A # '' b'') \<and>
   column_names_of multi_line_sql = PList [PStr ''a'', PStr ''b''] \<and>
   fst (get_indexes (replay_connection [[PStr ''i'', PStr multi_line_sql, PBool False]])
          ''t'' None fresh) =
     Inr (PList [PDict [(''name'', PStr ''i''), (''unique'', PBool False),
                        (''column_names'', PList [])]])"
  by (simp add: multi_line_sql_def first_parenthesized_group_def column_names_of_def
      strip_def isspace_def get_indexes_def io_pure_merge result_once replay_defs
      index_map_def subscript_def add_column_names_def)

subsection \<open>Absent rows\<close>

text \<open>
  Claim C6. With the cursor calls succeeding: when \<open>fetchone\<close> gives no row,
  \<open>get_pk_constraint\<close> returns the empty list and \<open>get_view_definition\<close> returns the
  empty string; when \<open>fetchone\<close> gives a row, \<open>get_pk_constraint\<close> returns the
  one-element list holding \<open>{name, column_names}\<close> built from the row's first two
  columns, and \<open>get_view_definition\<close> returns the row's first column as it is.
\<close>

theorem absent_row_is_empty_result:
  assumes "cursor conn = Inr cur" and "close cur = None"
  shows
  "(execute cur Get_constraints
       [PStr (schema_or_main schema), PStr table_name, PStr ''PRIMARY KEY''] = Inr res \<longrightarrow>
      (fetchone res = Inr None \<longrightarrow>
         fst (get_pk_constraint conn table_name schema fresh) = Inr (PList [])) \<and>
      (\<forall>name column_names rest.
         fetchone res = Inr (Some (name # column_names # rest)) \<longrightarrow>
         fst (get_pk_constraint conn table_name schema fresh) =
           Inr (PList [PDict [(''name'', name), (''column_names'', column_names)]]))) \<and>
   (execute cur Get_view_sql [PStr (schema_or_main schema), PStr view_name] = Inr res' \<longrightarrow>
      (fetchone res' = Inr None \<longrightarrow>
         fst (get_view_definition conn view_name schema fresh) = Inr (PStr [])) \<and>
      (\<forall>sql rest.
         fetchone res' = Inr (Some (sql # rest)) \<longrightarrow>
         fst (get_view_definition conn view_name schema fresh) = Inr sql))"
  using assms
  by (simp add: get_pk_constraint_def get_view_definition_def io_pure_merge result_once
      constraint_record_def subscript_def)

theorem absent_row_is_empty_result_witness:
  "fst (get_pk_constraint (replay_connection []) ''t'' None fresh) = Inr (PList []) \<and>
   fst (get_pk_constraint (replay_connection [[PStr ''pk'', PList [PStr ''id'']]])
          ''t'' None fresh) =
     Inr (PList [PDict [(''name'', PStr ''pk''), (''column_names'', PList [PStr ''id''])]]) \<and>
   fst (get_view_definition (replay_connection []) ''v'' None fresh) = Inr (PStr []) \<and>
   fst (get_view_definition (replay_connection [[PStr ''SELECT 1'']]) ''v'' None fresh) =
     Inr (PStr ''SELECT 1'')"
  using absent_row_is_empty_result
      [of "replay_connection []" _ None "''t''" "replay_result []" "''v''" "replay_result []"]
    absent_row_is_empty_result
      [of "replay_connection [[PStr ''pk'', PList [PStr ''id'']]]" _ None "''t''"
        "replay_result [[PStr ''pk'', PList [PStr ''id'']]]"]
    absent_row_is_empty_result
      [of "replay_connection [[PStr ''SELECT 1'']]" _ None _ _ "''v''"
        "replay_result [[PStr ''SELECT 1'']]"]
  by (simp add: replay_defs)

subsection \<open>Unsupported capabilities\<close>

text \<open>
  Claim C7. \<open>create_xid\<close> raises \<open>NotSupportedError\<close> (with its message); the savepoint
  and two-phase methods and \<open>get_table_comment\<close> raise \<open>NotImplementedError\<close>; none of
  them returns a value, for any arguments; and what \<open>create_xid\<close> raises is not
  \<open>NotImplementedError\<close>.
\<close>

theorem unsupported_signals:
  "fst (create_xid self) =
     Inl (NotSupportedError ''transactions not supported over http yet'') \<and>
   fst (do_savepoint conn name self) = Inl NotImplementedError \<and>
   fst (do_rollback_to_savepoint conn name self) = Inl NotImplementedError \<and>
   fst (do_release_savepoint conn name self) = Inl NotImplementedError \<and>
   fst (do_recover_twophase conn self) = Inl NotImplementedError \<and>
   fst (do_prepare_twophase conn xid self) = Inl NotImplementedError \<and>
   fst (do_commit_twophase conn xid is_prepared recover self) = Inl NotImplementedError \<and>
   fst (do_begin_twophase conn xid self) = Inl NotImplementedError \<and>
   fst (get_table_comment conn table_name schema s) = Inl NotImplementedError \<and>
   fst (create_xid self) \<noteq> Inl NotImplementedError"
  by (simp add: create_xid_def do_savepoint_def do_rollback_to_savepoint_def
      do_release_savepoint_def do_recover_twophase_def do_prepare_twophase_def
      do_commit_twophase_def do_begin_twophase_def get_table_comment_def io_pure_def)

theorem unsupported_signals_witness:
  "fst (create_xid RadioDuckDialect) =
     Inl (NotSupportedError ''transactions not supported over http yet'') \<and>
   fst (do_savepoint failing_connection ''sp'' RadioDuckDialect) = Inl NotImplementedError \<and>
   fst (get_table_comment failing_connection ''t'' None fresh) = Inl NotImplementedError"
  using unsupported_signals [of RadioDuckDialect failing_connection "''sp''" _ _ _ "''t''" None fresh]
  by simp

subsection \<open>Connect arguments\<close>

text \<open>
  Claim C8. For every URL, \<open>create_connect_args\<close> returns the empty positional list
  together with a mapping that agrees with the URL's query parameters on every key they
  define (also on the keys the translated components define as well) and with the
  translated components on every other key; the dialect object is left as it was.
\<close>

theorem create_connect_args_merges:
  "\<exists>opts. create_connect_args u self = (Inr ([], opts), self) \<and>
      (\<forall>k\<in>dom (query u). opts k = query u k) \<and>
      (\<forall>k. k \<notin> dom (query u) \<longrightarrow> opts k = translate_connect_args u k)"
  by (auto simp: create_connect_args_def map_add_def split: option.splits)

theorem create_connect_args_merges_witness:
  "\<exists>opts.
     create_connect_args
       \<lparr>translate_connect_args = [''host'' \<mapsto> PStr ''a'', ''port'' \<mapsto> PInt 8000],
        query = [''host'' \<mapsto> PStr ''b'']\<rparr> RadioDuckDialect =
       (Inr ([], opts), RadioDuckDialect) \<and>
     opts ''host'' = Some (PStr ''b'') \<and> opts ''port'' = Some (PInt 8000)"
  using create_connect_args_merges
      [of "\<lparr>translate_connect_args = [''host'' \<mapsto> PStr ''a'', ''port'' \<mapsto> PInt 8000],
            query = [''host'' \<mapsto> PStr ''b'']\<rparr>" RadioDuckDialect]
  by (auto simp: dom_def)

subsection \<open>Isolation level\<close>

lemma invoke_all_noop: "invoke_all cs self = (replicate (length cs) (Inr PNone), self)"
proof (induction cs)
  case Nil
  show ?case by simp
next
  case (Cons c cs)
  have "invoke c self = (Inr PNone, self)"
    by (cases c) (simp_all add: do_begin_def do_commit_def do_rollback_def
        reset_isolation_level_def set_isolation_level_def)
  with Cons show ?case by simp
qed

text \<open>
  Claim C9. On the dialect as the class defines it, \<open>get_isolation_level\<close> and
  \<open>get_default_isolation_level\<close> return \<open>"SNAPSHOT"\<close>; every sequence of calls to
  \<open>do_begin\<close>, \<open>do_commit\<close>, \<open>do_rollback\<close>, \<open>reset_isolation_level\<close> and
  \<open>set_isolation_level\<close>, with any connection and level arguments, returns \<open>None\<close> from
  each call without raising, and afterwards both getters still return \<open>"SNAPSHOT"\<close>.
\<close>

theorem isolation_level_fixed:
  "fst (get_isolation_level conn RadioDuckDialect) = Inr (PStr ''SNAPSHOT'') \<and>
   fst (get_default_isolation_level conn RadioDuckDialect) = Inr (PStr ''SNAPSHOT'') \<and>
   fst (invoke_all cs RadioDuckDialect) = replicate (length cs) (Inr PNone) \<and>
   fst (get_isolation_level conn (snd (invoke_all cs RadioDuckDialect))) =
     Inr (PStr ''SNAPSHOT'') \<and>
   fst (get_default_isolation_level conn (snd (invoke_all cs RadioDuckDialect))) =
     Inr (PStr ''SNAPSHOT'')"
  by (simp add: invoke_all_noop get_isolation_level_def get_default_isolation_level_def
      RadioDuckDialect_def)

theorem isolation_level_fixed_witness:
  "fst (invoke_all
          [Do_begin failing_connection,
           Set_isolation_level failing_connection (PStr ''SERIALIZABLE''),
           Reset_isolation_level failing_connection,
           Do_rollback failing_connection,
           Do_commit failing_connection] RadioDuckDialect) =
     [Inr PNone, Inr PNone, Inr PNone, Inr PNone, Inr PNone] \<and>
   fst (get_isolation_level failing_connection
          (snd (invoke_all
                  [Do_begin failing_connection,
                   Set_isolation_level failing_connection (PStr ''SERIALIZABLE''),
                   Reset_isolation_level failing_connection,
                   Do_rollback failing_connection,
                   Do_commit failing_connection] RadioDuckDialect))) =
     Inr (PStr ''SNAPSHOT'')"
  using isolation_level_fixed
      [of failing_connection
        "[Do_begin failing_connection,
          Set_isolation_level failing_connection (PStr ''SERIALIZABLE''),
          Reset_isolation_level failing_connection,
          Do_rollback failing_connection,
          Do_commit failing_connection]"]
  by (simp add: numeral_eq_Suc)

end
